theory Spec2Isabelle
  imports Main "HOL-Library.Word" "HOL-Library.Sublist"
begin

section \<open>JavaScript strings\<close>

text \<open>
  A JavaScript string is a sequence of UTF-16 code units; \<open>length\<close>, \<open>substring\<close> and a
  regular expression without the \<open>u\<close> flag all count code units. \<open>js\<close> turns an ASCII
  literal into such a string.
\<close>

type_synonym cu = "16 word"
type_synonym jsstring = "cu list"

definition js :: "string \<Rightarrow> jsstring" where
  "js s = map of_char s"

text \<open>The class \<open>\s\<close>, which is also what \<open>trim()\<close> strips: WhiteSpace and LineTerminator.\<close>

definition is_space :: "cu \<Rightarrow> bool" where
  "is_space c \<longleftrightarrow>
     c = 0x09 \<or> c = 0x0A \<or> c = 0x0B \<or> c = 0x0C \<or> c = 0x0D \<or> c = 0x20 \<or> c = 0xA0 \<or>
     c = 0x1680 \<or> (0x2000 \<le> c \<and> c \<le> 0x200A) \<or> c = 0x2028 \<or> c = 0x2029 \<or>
     c = 0x202F \<or> c = 0x205F \<or> c = 0x3000 \<or> c = 0xFEFF"

definition is_line_terminator :: "cu \<Rightarrow> bool" where
  "is_line_terminator c \<longleftrightarrow> c = 0x0A \<or> c = 0x0D \<or> c = 0x2028 \<or> c = 0x2029"

text \<open>The class \<open>\d\<close>.\<close>

definition is_digit :: "cu \<Rightarrow> bool" where
  "is_digit c \<longleftrightarrow> 0x30 \<le> c \<and> c \<le> 0x39"

definition trim :: "jsstring \<Rightarrow> jsstring" where
  "trim s = rev (dropWhile is_space (rev (dropWhile is_space s)))"

section \<open>The regular expressions of the normalizer\<close>

text \<open>
  Every pattern in \<open>convertMarkdownToPlainText\<close> is a sequence of items, each either the
  anchor \<open>^\<close> (always under the \<open>m\<close> flag) or a one-character class with a quantifier.
  \<open>Rep p lo hi greedy captured\<close> is the class \<open>p\<close> repeated \<open>lo\<close> to \<open>hi\<close> times
  (\<open>None\<close>: unbounded), greedy or lazy, inside a capturing group or not.
\<close>

datatype item = Bol | Rep "cu \<Rightarrow> bool" nat "nat option" bool bool

definition chr :: "char \<Rightarrow> cu \<Rightarrow> bool" where
  "chr a c \<longleftrightarrow> c = of_char a"

definition not_chr :: "char \<Rightarrow> cu \<Rightarrow> bool" where
  "not_chr a c \<longleftrightarrow> c \<noteq> of_char a"

definition one_of :: "string \<Rightarrow> cu \<Rightarrow> bool" where
  "one_of as c \<longleftrightarrow> c \<in> of_char ` set as"

definition any_cu :: "cu \<Rightarrow> bool" where
  "any_cu c \<longleftrightarrow> True"

definition exactly_one :: "(cu \<Rightarrow> bool) \<Rightarrow> item" where
  "exactly_one p = Rep p 1 (Some 1) True False"

definition one_or_more :: "(cu \<Rightarrow> bool) \<Rightarrow> item" where
  "one_or_more p = Rep p 1 None True False"

definition any_number :: "(cu \<Rightarrow> bool) \<Rightarrow> item" where
  "any_number p = Rep p 0 None True False"

definition lazy_any_number :: "(cu \<Rightarrow> bool) \<Rightarrow> item" where
  "lazy_any_number p = Rep p 0 None False False"

definition group_one_or_more :: "(cu \<Rightarrow> bool) \<Rightarrow> item" where
  "group_one_or_more p = Rep p 1 None True True"

text \<open>\<^verbatim>\<open>/#{1,6}\s+/g\<close>\<close>
definition re_headers :: "item list" where
  "re_headers = [Rep (chr CHR ''#'') 1 (Some 6) True False, one_or_more is_space]"

text \<open>\<^verbatim>\<open>/\*\*([^*]+)\*\*/g\<close>\<close>
definition re_bold :: "item list" where
  "re_bold = [exactly_one (chr CHR ''*''), exactly_one (chr CHR ''*''), group_one_or_more (not_chr CHR ''*''),
              exactly_one (chr CHR ''*''), exactly_one (chr CHR ''*'')]"

text \<open>\<^verbatim>\<open>/\*([^*]+)\*/g\<close>\<close>
definition re_italic :: "item list" where
  "re_italic = [exactly_one (chr CHR ''*''), group_one_or_more (not_chr CHR ''*''), exactly_one (chr CHR ''*'')]"

text \<open>\<^verbatim>\<open>/`([^`]+)`/g\<close>\<close>
definition re_inline_code :: "item list" where
  "re_inline_code = [exactly_one (chr CHR ''`''), group_one_or_more (not_chr CHR ''`''), exactly_one (chr CHR ''`'')]"

text \<open>\<^verbatim>\<open>/```[\s\S]*?```/g\<close>\<close>
definition re_code_blocks :: "item list" where
  "re_code_blocks = [exactly_one (chr CHR ''`''), exactly_one (chr CHR ''`''), exactly_one (chr CHR ''`''),
                     lazy_any_number any_cu,
                     exactly_one (chr CHR ''`''), exactly_one (chr CHR ''`''), exactly_one (chr CHR ''`'')]"

text \<open>\<^verbatim>\<open>/\[([^\]]+)\]\([^)]+\)/g\<close>\<close>
definition re_links :: "item list" where
  "re_links = [exactly_one (chr CHR ''[''), group_one_or_more (not_chr CHR '']''), exactly_one (chr CHR '']''),
               exactly_one (chr CHR ''(''), one_or_more (not_chr CHR '')''), exactly_one (chr CHR '')'')]"

text \<open>\<^verbatim>\<open>/^\s*[-*+]\s+/gm\<close>\<close>
definition re_lists :: "item list" where
  "re_lists = [Bol, any_number is_space, exactly_one (one_of ''-*+''), one_or_more is_space]"

text \<open>\<^verbatim>\<open>/^\s*\d+\.\s+/gm\<close>\<close>
definition re_numbered :: "item list" where
  "re_numbered = [Bol, any_number is_space, one_or_more is_digit, exactly_one (chr CHR ''.''), one_or_more is_space]"

text \<open>\<^verbatim>\<open>/^\s*>\s+/gm\<close>\<close>
definition re_quotes :: "item list" where
  "re_quotes = [Bol, any_number is_space, exactly_one (chr CHR ''>''), one_or_more is_space]"

text \<open>\<^verbatim>\<open>/\n{2,}/g\<close>\<close>
definition re_newlines :: "item list" where
  "re_newlines = [Rep (chr CHR ''\<newline>'') 2 None True False]"

text \<open>\<^verbatim>\<open>/\s+/g\<close>\<close>
definition re_spaces :: "item list" where
  "re_spaces = [one_or_more is_space]"

section \<open>Backtracking match and global replace\<close>

text \<open>
  \<open>^\<close> under the \<open>m\<close> flag holds at the start of the input and after a line terminator;
  \<open>prev\<close> is the code unit before the current position, \<open>None\<close> at the start.
\<close>

definition line_start :: "cu option \<Rightarrow> bool" where
  "line_start prev = (case prev of None \<Rightarrow> True | Some c \<Rightarrow> is_line_terminator c)"

definition prev_after :: "cu option \<Rightarrow> nat \<Rightarrow> jsstring \<Rightarrow> cu option" where
  "prev_after prev n xs = (if n = 0 then prev else Some (xs ! (n - 1)))"

fun first_match :: "(nat \<Rightarrow> 'a option) \<Rightarrow> nat list \<Rightarrow> 'a option" where
  "first_match f [] = None"
| "first_match f (n # ns) = (case f n of Some y \<Rightarrow> Some y | None \<Rightarrow> first_match f ns)"

text \<open>
  A match at the current position: the number of code units consumed and the captures, or
  \<open>None\<close>. A quantified class can take any count from \<open>lo\<close> up to the run of matching
  units that follows (capped by \<open>hi\<close>); a greedy quantifier tries the longest first and
  backs off, a lazy one the shortest first; the first count for which the rest of the
  pattern matches wins.
\<close>

fun match_items :: "item list \<Rightarrow> cu option \<Rightarrow> jsstring \<Rightarrow> (nat \<times> jsstring list) option" where
  "match_items [] prev xs = Some (0, [])"
| "match_items (Bol # r) prev xs = (if line_start prev then match_items r prev xs else None)"
| "match_items (Rep p lo hi greedy captured # r) prev xs =
     (let k = length (takeWhile p (case hi of None \<Rightarrow> xs | Some h \<Rightarrow> take h xs));
          counts = (if greedy then rev [lo..<Suc k] else [lo..<Suc k])
      in first_match
           (\<lambda>n. case match_items r (prev_after prev n xs) (drop n xs) of
                  None \<Rightarrow> None
                | Some (m, caps) \<Rightarrow> Some (n + m, (if captured then [take n xs] else []) @ caps))
           counts)"

text \<open>The replacement strings of the source: a literal, or \<^verbatim>\<open>'$1'\<close>.\<close>

datatype repl = Lit jsstring | Group1

fun expand :: "repl \<Rightarrow> jsstring list \<Rightarrow> jsstring" where
  "expand (Lit s) caps = s"
| "expand Group1 caps = (case caps of [] \<Rightarrow> js ''$1'' | c # _ \<Rightarrow> c)"

text \<open>
  \<open>String.prototype.replace\<close> with a \<open>g\<close> pattern: scan from the left, at each position
  try to match; a match is replaced and the scan resumes behind it (one unit further when
  the match is empty); an unmatched unit is copied.
\<close>

function replace_from :: "item list \<Rightarrow> repl \<Rightarrow> cu option \<Rightarrow> jsstring \<Rightarrow> jsstring" where
  "replace_from r rp prev [] =
     (case match_items r prev [] of None \<Rightarrow> [] | Some (n, caps) \<Rightarrow> expand rp caps)"
| "replace_from r rp prev (c # cs) =
     (case match_items r prev (c # cs) of
        None \<Rightarrow> c # replace_from r rp (Some c) cs
      | Some (n, caps) \<Rightarrow>
          (if n = 0 then expand rp caps @ c # replace_from r rp (Some c) cs
           else expand rp caps @ replace_from r rp (Some ((c # cs) ! (n - 1))) (drop n (c # cs))))"
  by pat_completeness auto
termination
  by (relation "measure (\<lambda>(r, rp, prev, xs). length xs)") auto

definition replace :: "item list \<Rightarrow> repl \<Rightarrow> jsstring \<Rightarrow> jsstring" where
  "replace r rp s = replace_from r rp None s"

section \<open>convertMarkdownToPlainText\<close>

definition bullet :: jsstring where
  "bullet = [0x2022, 0x20]"

definition convertMarkdownToPlainText :: "jsstring \<Rightarrow> jsstring" where
  "convertMarkdownToPlainText markdown =
     (let s = replace re_headers (Lit []) markdown;
          s = replace re_bold Group1 s;
          s = replace re_italic Group1 s;
          s = replace re_inline_code Group1 s;
          s = replace re_code_blocks (Lit (js ''[Code]'')) s;
          s = replace re_links Group1 s;
          s = replace re_lists (Lit bullet) s;
          s = replace re_numbered (Lit []) s;
          s = replace re_quotes (Lit []) s;
          s = replace re_newlines (Lit (js '' '')) s;
          s = replace re_spaces (Lit (js '' '')) s
      in trim s)"

section \<open>The OpenAITTS component\<close>

datatype TtsStatus = Idle | Generating | Loading | Playing | Paused | Error

record voice =
  name :: jsstring
  description :: jsstring

definition OPENAI_VOICES :: "voice list" where
  "OPENAI_VOICES =
     [\<lparr>name = js ''alloy'', description = js ''Alloy - Neutraal en helder''\<rparr>,
      \<lparr>name = js ''echo'', description = js ''Echo - Mannelijk en kalm''\<rparr>,
      \<lparr>name = js ''fable'', description = js ''Fable - Brits accent''\<rparr>,
      \<lparr>name = js ''onyx'', description = js ''Onyx - Diep en krachtig''\<rparr>,
      \<lparr>name = js ''nova'', description = js ''Nova - Vrouwelijk en warm''\<rparr>,
      \<lparr>name = js ''shimmer'', description = js ''Shimmer - Zacht en vriendelijk''\<rparr>]"

text \<open>The props the controller reads (\<open>className\<close> and \<open>hideSettings\<close> only style the markup).\<close>

record props =
  content :: jsstring
  isMarkdown :: bool
  isStreaming :: bool
  propSelectedVoice :: "voice option"

text \<open>The JSON body of the request to \<^verbatim>\<open>/api/generate-tts\<close>.\<close>

record tts_request =
  text' :: jsstring
  voiceName :: jsstring

text \<open>
  Every call the component makes on the platform is an entry of a log. Audio elements and
  object URLs are numbered in the order of their creation; \<open>startNewTTS\<close> creates them in
  pairs, so the audio element \<open>n\<close> plays the object URL \<open>n\<close> and its handlers close over
  that URL.
\<close>

datatype effect =
    Fetch tts_request
  | CreateObjectURL nat
  | NewAudio nat
  | SetSrc nat nat
  | AudioPlay nat
  | AudioPause nat
  | RevokeObjectURL nat
  | SetTimeout nat

text \<open>
  The React state (\<open>ttsStatus\<close>, \<open>selectedVoice\<close>, \<open>currentAudio\<close>, \<open>progress\<close>), the ref
  \<open>audioRef\<close>, and what is pending outside the component: the calls of \<open>startNewTTS\<close>
  suspended at \<open>await fetch\<close>, at \<open>await response.blob()\<close> and at \<open>await audio.play()\<close>,
  and the delays of the timers set and not yet fired.
\<close>

record state =
  ttsStatus :: TtsStatus
  selectedVoice :: voice
  currentAudio :: "nat option"
  progress :: jsstring
  audioRef :: "nat option"
  effects :: "effect list"
  audios :: nat
  awaiting_fetch :: nat
  awaiting_blob :: nat
  awaiting_play :: nat
  timers :: "nat list"
  mounted :: bool

definition initial :: "props \<Rightarrow> state" where
  "initial p =
     \<lparr>ttsStatus = Idle,
      selectedVoice = (case propSelectedVoice p of Some v \<Rightarrow> v | None \<Rightarrow> hd OPENAI_VOICES),
      currentAudio = None, progress = [], audioRef = None, effects = [], audios = 0,
      awaiting_fetch = 0, awaiting_blob = 0, awaiting_play = 0, timers = [], mounted = True\<rparr>"

definition call :: "effect \<Rightarrow> state \<Rightarrow> state" where
  "call e s = s\<lparr>effects := effects s @ [e]\<rparr>"

text \<open>\<^verbatim>\<open>if (audioRef.current) { audioRef.current.pause(); audioRef.current = null }\<close>\<close>

definition release_ref :: "state \<Rightarrow> state" where
  "release_ref s =
     (case audioRef s of None \<Rightarrow> s | Some a \<Rightarrow> (call (AudioPause a) s)\<lparr>audioRef := None\<rparr>)"

definition textToSpeak :: "props \<Rightarrow> jsstring" where
  "textToSpeak p = (if isMarkdown p then convertMarkdownToPlainText (content p) else content p)"

definition limitedText :: "props \<Rightarrow> jsstring" where
  "limitedText p =
     (if length (textToSpeak p) > 4096 then take 4096 (textToSpeak p) @ js ''...''
      else textToSpeak p)"

text \<open>\<open>startNewTTS\<close> up to its first \<open>await\<close>.\<close>

definition startNewTTS :: "props \<Rightarrow> state \<Rightarrow> state" where
  "startNewTTS p s =
     (let s = s\<lparr>ttsStatus := Generating, progress := js ''Audio genereren...''\<rparr>;
          s = release_ref s;
          s = call (Fetch \<lparr>text' = limitedText p, voiceName = name (selectedVoice s)\<rparr>) s
      in s\<lparr>awaiting_fetch := Suc (awaiting_fetch s)\<rparr>)"

text \<open>The \<open>catch\<close> block of \<open>startNewTTS\<close>.\<close>

definition startNewTTS_catch :: "state \<Rightarrow> state" where
  "startNewTTS_catch s =
     (let s = s\<lparr>ttsStatus := Error, progress := js ''Er is een fout opgetreden''\<rparr>;
          s = call (SetTimeout 3000) s
      in s\<lparr>timers := timers s @ [3000]\<rparr>)"

text \<open>
  The promise of \<open>fetch\<close> settles: it rejects, or resolves to a response that is \<open>ok\<close> or
  not. A response that is not \<open>ok\<close> has its text read and an error thrown.
\<close>

datatype fetch_outcome = Rejected | Response bool

definition startNewTTS_fetched :: "fetch_outcome \<Rightarrow> state \<Rightarrow> state" where
  "startNewTTS_fetched outcome s =
     (let s = s\<lparr>awaiting_fetch := awaiting_fetch s - 1\<rparr>
      in case outcome of
           Rejected \<Rightarrow> startNewTTS_catch s
         | Response ok \<Rightarrow>
             if \<not> ok then startNewTTS_catch s
             else s\<lparr>ttsStatus := Loading, progress := js ''Audio laden...'',
                    awaiting_blob := Suc (awaiting_blob s)\<rparr>)"

text \<open>
  \<open>response.blob()\<close> settles. On success the object URL and the audio element are created,
  the ref and \<open>currentAudio\<close> are set, the handlers attached, and \<open>audio.play()\<close> is awaited.
\<close>

definition startNewTTS_blob :: "bool \<Rightarrow> state \<Rightarrow> state" where
  "startNewTTS_blob resolved s =
     (let s = s\<lparr>awaiting_blob := awaiting_blob s - 1\<rparr>
      in if \<not> resolved then startNewTTS_catch s
         else
           let n = audios s;
               s = call (CreateObjectURL n) s;
               s = call (NewAudio n) s;
               s = s\<lparr>audios := Suc n, audioRef := Some n, currentAudio := Some n\<rparr>;
               s = call (SetSrc n n) s;
               s = call (AudioPlay n) s
           in s\<lparr>awaiting_play := Suc (awaiting_play s)\<rparr>)"

text \<open>The promise of \<open>audio.play()\<close> settles; a rejection is rethrown into the \<open>catch\<close> block.\<close>

definition startNewTTS_played :: "bool \<Rightarrow> state \<Rightarrow> state" where
  "startNewTTS_played resolved s =
     (let s = s\<lparr>awaiting_play := awaiting_play s - 1\<rparr>
      in if resolved then s else startNewTTS_catch s)"

text \<open>The handlers \<open>startNewTTS\<close> attaches to the audio element \<open>n\<close>.\<close>

datatype audio_event = Loadstart | Canplay | Play | Pause | Ended | Failed

fun audio_handler :: "audio_event \<Rightarrow> nat \<Rightarrow> state \<Rightarrow> state" where
  "audio_handler Loadstart n s = s\<lparr>progress := js ''Audio wordt geladen...''\<rparr>"
| "audio_handler Canplay n s = s\<lparr>progress := []\<rparr>"
| "audio_handler Play n s = s\<lparr>ttsStatus := Playing, progress := []\<rparr>"
| "audio_handler Pause n s = s\<lparr>ttsStatus := Paused\<rparr>"
| "audio_handler Ended n s =
     call (RevokeObjectURL n)
       (s\<lparr>ttsStatus := Idle, currentAudio := None, audioRef := None, progress := []\<rparr>)"
| "audio_handler Failed n s =
     (let s = s\<lparr>ttsStatus := Error, progress := js ''Afspeel fout''\<rparr>;
          s = call (SetTimeout 3000) s;
          s = s\<lparr>timers := timers s @ [3000]\<rparr>;
          s = s\<lparr>currentAudio := None, audioRef := None\<rparr>
      in call (RevokeObjectURL n) s)"

text \<open>The callback both \<open>setTimeout\<close> calls pass.\<close>

definition timer_callback :: "state \<Rightarrow> state" where
  "timer_callback s = s\<lparr>ttsStatus := Idle, progress := []\<rparr>"

definition generateTTS :: "props \<Rightarrow> state \<Rightarrow> state" where
  "generateTTS p s =
     (if isStreaming p \<or> trim (content p) = [] then s
      else if ttsStatus s = Playing \<and> audioRef s \<noteq> None then
        (call (AudioPause (the (audioRef s))) s)\<lparr>ttsStatus := Paused\<rparr>
      else if ttsStatus s = Paused \<and> audioRef s \<noteq> None then
        (call (AudioPlay (the (audioRef s))) s)\<lparr>ttsStatus := Playing\<rparr>
      else startNewTTS p s)"

definition stopTTS :: "state \<Rightarrow> state" where
  "stopTTS s = (release_ref s)\<lparr>currentAudio := None, ttsStatus := Idle, progress := []\<rparr>"

text \<open>The cleanup of the effect that runs on unmount.\<close>

definition unmount :: "state \<Rightarrow> state" where
  "unmount s = (release_ref s)\<lparr>mounted := False\<rparr>"

text \<open>
  What the rendered markup lets the user do. The component renders nothing when the
  trimmed content is empty; the speak button runs \<open>generateTTS\<close> and carries
  \<^verbatim>\<open>disabled={isStreaming || ttsStatus === 'generating' || ttsStatus === 'loading'}\<close>;
  the stop button runs \<open>stopTTS\<close> and is rendered only while playing or paused. A click
  on a button that is disabled or not rendered does nothing.
\<close>

definition speak_disabled :: "props \<Rightarrow> state \<Rightarrow> bool" where
  "speak_disabled p s \<longleftrightarrow> isStreaming p \<or> ttsStatus s = Generating \<or> ttsStatus s = Loading"

definition speak :: "props \<Rightarrow> state \<Rightarrow> state" where
  "speak p s = (if trim (content p) = [] \<or> speak_disabled p s then s else generateTTS p s)"

definition stop :: "props \<Rightarrow> state \<Rightarrow> state" where
  "stop p s =
     (if trim (content p) = [] \<or> \<not> (ttsStatus s = Playing \<or> ttsStatus s = Paused) then s
      else stopTTS s)"

text \<open>The voice \<open>select\<close>: \<^verbatim>\<open>OPENAI_VOICES.find(v => v.name === e.target.value)\<close>.\<close>

definition select_voice :: "jsstring \<Rightarrow> state \<Rightarrow> state" where
  "select_voice v s =
     (case find (\<lambda>x. name x = v) OPENAI_VOICES of
        None \<Rightarrow> s
      | Some x \<Rightarrow> s\<lparr>selectedVoice := x\<rparr>)"

text \<open>
  One event of the host's event loop. \<open>None\<close>: the event cannot occur in this state (no
  such promise is pending, no such audio element or timer exists). The model ends at
  unmount.
\<close>

datatype event =
    ClickSpeak
  | ClickStop
  | SelectVoice jsstring
  | FetchSettled fetch_outcome
  | BlobSettled bool
  | PlaySettled bool
  | AudioEvent nat audio_event
  | TimerFired
  | Unmount

fun step :: "props \<Rightarrow> event \<Rightarrow> state \<Rightarrow> state option" where
  "step p ClickSpeak s = (if mounted s then Some (speak p s) else None)"
| "step p ClickStop s = (if mounted s then Some (stop p s) else None)"
| "step p (SelectVoice v) s = (if mounted s then Some (select_voice v s) else None)"
| "step p (FetchSettled outcome) s =
     (if mounted s \<and> 0 < awaiting_fetch s then Some (startNewTTS_fetched outcome s) else None)"
| "step p (BlobSettled resolved) s =
     (if mounted s \<and> 0 < awaiting_blob s then Some (startNewTTS_blob resolved s) else None)"
| "step p (PlaySettled resolved) s =
     (if mounted s \<and> 0 < awaiting_play s then Some (startNewTTS_played resolved s) else None)"
| "step p (AudioEvent n e) s =
     (if mounted s \<and> n < audios s then Some (audio_handler e n s) else None)"
| "step p TimerFired s =
     (case timers s of
        [] \<Rightarrow> None
      | d # ds \<Rightarrow> if mounted s then Some (timer_callback (s\<lparr>timers := ds\<rparr>)) else None)"
| "step p Unmount s = (if mounted s then Some (unmount s) else None)"

fun run :: "props \<Rightarrow> event list \<Rightarrow> state \<Rightarrow> state option" where
  "run p [] s = Some s"
| "run p (e # es) s = (case step p e s of None \<Rightarrow> None | Some s' \<Rightarrow> run p es s')"

definition requests :: "state \<Rightarrow> tts_request list" where
  "requests s = concat (map (\<lambda>e. case e of Fetch r \<Rightarrow> [r] | _ \<Rightarrow> []) (effects s))"

definition revocations :: "nat \<Rightarrow> state \<Rightarrow> nat" where
  "revocations n s = length (filter (\<lambda>e. e = RevokeObjectURL n) (effects s))"

section \<open>The relay endpoint: POST /api/generate-tts\<close>

text \<open>
  A parsed JSON value. A number is kept as an integer: the handler only asks whether it is
  zero, and rejects it either way.
\<close>

datatype json =
    JNull
  | JBool bool
  | JNum int
  | JStr jsstring
  | JArr "json list"
  | JObj "(jsstring \<times> json) list"

text \<open>
  A thrown value, as far as the \<open>catch\<close> block looks at it: \<open>error.status\<close>, whether it is
  an instance of \<open>Error\<close>, and its \<open>message\<close>.
\<close>

record thrown =
  err_status :: "nat option"
  err_is_Error :: bool
  err_message :: jsstring

text \<open>
  Reading the properties \<open>text\<close> and \<open>voiceName\<close> of the parsed body (no prototype
  defines them): \<open>undefined\<close> (\<open>None\<close>) when absent or when the body is not an object; a
  later duplicate key of the JSON text wins; on \<open>null\<close> the first read, of \<open>text\<close>, throws
  a TypeError (with the message of V8).
\<close>

definition get_prop :: "json \<Rightarrow> jsstring \<Rightarrow> thrown + json option" where
  "get_prop b k =
     (case b of
        JNull \<Rightarrow> Inl \<lparr>err_status = None, err_is_Error = True,
                       err_message = js ''Cannot read properties of null (reading 'text')''\<rparr>
      | JObj kvs \<Rightarrow> Inr (map_of (rev kvs) k)
      | _ \<Rightarrow> Inr None)"

text \<open>\<^verbatim>\<open>!text || typeof text !== 'string'\<close>\<close>

fun truthy :: "json option \<Rightarrow> bool" where
  "truthy None = False"
| "truthy (Some JNull) = False"
| "truthy (Some (JBool b)) = b"
| "truthy (Some (JNum n)) = (n \<noteq> 0)"
| "truthy (Some (JStr t)) = (t \<noteq> [])"
| "truthy (Some (JArr xs)) = True"
| "truthy (Some (JObj kvs)) = True"

fun is_string :: "json option \<Rightarrow> bool" where
  "is_string (Some (JStr t)) = True"
| "is_string v = False"

fun the_string :: "json option \<Rightarrow> jsstring" where
  "the_string (Some (JStr t)) = t"
| "the_string v = []"

text \<open>\<^verbatim>\<open>OPENAI_VOICES.some(voice => voice.name === voiceName)\<close>, on whatever the body held.\<close>

definition isValidVoice :: "json \<Rightarrow> bool" where
  "isValidVoice v = list_ex (\<lambda>x. JStr (name x) = v) OPENAI_VOICES"

text \<open>
  The upstream call \<open>openai.audio.speech.create\<close> followed by \<open>arrayBuffer()\<close>: the bytes of
  the MP3, or a thrown error.
\<close>

datatype upstream_result = Mp3 "8 word list" | Throws thrown

text \<open>
  The error text of a JSON error body; the one for an unknown voice interpolates the
  rejected value.
\<close>

datatype error_text = Message jsstring | InvalidVoice json

datatype response_body =
    JsonError error_text "jsstring option" "jsstring option" "jsstring option"
  | Binary "8 word list"

text \<open>
  A response: the status, the Content-Type, the number the Content-Length header prints
  (when the handler sets the header), and the body. The fields of a JSON error body are
  \<open>error\<close>, \<open>hint\<close>, \<open>details\<close> and \<open>timestamp\<close>.
\<close>

record response =
  status :: nat
  content_type :: jsstring
  content_length :: "nat option"
  body :: response_body

definition json_response :: "nat \<Rightarrow> response_body \<Rightarrow> response" where
  "json_response st b =
     \<lparr>status = st, content_type = js ''application/json'', content_length = None, body = b\<rparr>"

text \<open>The \<open>catch\<close> block of the handler; \<open>now\<close> is the ISO string of the current time.\<close>

definition POST_catch :: "jsstring \<Rightarrow> thrown \<Rightarrow> response" where
  "POST_catch now e =
     (if err_status e = Some 429 then
        json_response 429
          (JsonError (Message (js ''API quota bereikt. Probeer het later opnieuw.''))
             None (Some (js ''Rate limit exceeded'')) None)
      else
        json_response 500
          (JsonError (Message (js ''Er is een fout opgetreden bij het genereren van audio''))
             None (Some (if err_is_Error e then err_message e else js ''Unknown error''))
             (Some now)))"

definition audio_response :: "8 word list \<Rightarrow> response" where
  "audio_response buffer =
     \<lparr>status = 200, content_type = js ''audio/mpeg'', content_length = Some (length buffer),
      body = Binary buffer\<rparr>"

text \<open>
  The handler. \<open>api_key\<close> is \<open>process.env.OPENAI_API_KEY\<close>; \<open>parsed\<close> is what
  \<open>request.json()\<close> resolves to, or the error it throws; \<open>upstream voice input\<close> is the
  provider's answer.
\<close>

definition POST ::
  "jsstring option \<Rightarrow> thrown + json \<Rightarrow> (jsstring \<Rightarrow> jsstring \<Rightarrow> upstream_result) \<Rightarrow> jsstring
     \<Rightarrow> response" where
  "POST api_key parsed upstream now =
     (if api_key = None \<or> api_key = Some [] then
        json_response 500
          (JsonError (Message (js ''API configuratie ontbreekt. Check Environment Variables.''))
             (Some (js ''Voeg OPENAI_API_KEY toe aan je environment variables'')) None None)
      else
        case parsed of
          Inl e \<Rightarrow> POST_catch now e
        | Inr b \<Rightarrow>
            (case get_prop b (js ''text'') of
               Inl e \<Rightarrow> POST_catch now e
             | Inr text \<Rightarrow>
                 (case get_prop b (js ''voiceName'') of
                    Inl e \<Rightarrow> POST_catch now e
                  | Inr v \<Rightarrow>
                      let voiceName = (case v of None \<Rightarrow> JStr (js ''alloy'') | Some x \<Rightarrow> x)
                      in if \<not> truthy text \<or> \<not> is_string text then
                           json_response 400
                             (JsonError (Message (js ''Tekst is vereist en moet een string zijn''))
                                None None None)
                         else if length (the_string text) > 4096 then
                           json_response 400
                             (JsonError
                                (Message (js ''Tekst mag maximaal 4.096 karakters bevatten''))
                                None None None)
                         else if \<not> isValidVoice voiceName then
                           json_response 400 (JsonError (InvalidVoice voiceName) None None None)
                         else
                           (case upstream (the_string (Some voiceName)) (the_string text) of
                              Throws e \<Rightarrow> POST_catch now e
                            | Mp3 buffer \<Rightarrow> audio_response buffer))))"

section \<open>Inputs and observations used by the theorems\<close>

text \<open>The example of the specification, a short plain text, and a text one unit too long.\<close>

definition demo :: props where
  "demo = \<lparr>content = js ''# Hello\<newline>\<newline>This is **bold** text.'', isMarkdown = True,
            isStreaming = False, propSelectedVoice = None\<rparr>"

definition plain :: props where
  "plain = \<lparr>content = js ''Hallo'', isMarkdown = False, isStreaming = False,
             propSelectedVoice = None\<rparr>"

definition long_text :: props where
  "long_text = \<lparr>content = replicate 4097 0x61, isMarkdown = False, isStreaming = False,
                 propSelectedVoice = None\<rparr>"

definition observe :: "state \<Rightarrow> TtsStatus \<times> jsstring \<times> nat option \<times> nat option \<times> nat list" where
  "observe s = (ttsStatus s, progress s, audioRef s, currentAudio s, timers s)"



text \<open>One click, a successful relay answer, and the audio starting to play.\<close>

definition to_playing :: "event list" where
  "to_playing = [ClickSpeak, FetchSettled (Response True), BlobSettled True, AudioEvent 0 Play,
                 PlaySettled True]"


text \<open>Three providers: one that answers with three bytes, one out of quota, one that is down.\<close>

definition working_upstream :: "jsstring \<Rightarrow> jsstring \<Rightarrow> upstream_result" where
  "working_upstream voice input = Mp3 [0x49, 0x44, 0x33]"





section \<open>The normalizer\<close>

subsection \<open>A pattern that needs an absent code unit never matches\<close>





lemma match_spaces:
  "match_items re_spaces prev xs =
     (if xs \<noteq> [] \<and> is_space (hd xs) then Some (length (takeWhile is_space xs), []) else None)"
proof (cases "xs \<noteq> [] \<and> is_space (hd xs)")
  case True
  then obtain k where k: "length (takeWhile is_space xs) = Suc k"
    by (cases xs) auto
  show ?thesis
    using True by (simp add: re_spaces_def one_or_more_def k)
next
  case False
  then have "takeWhile is_space xs = []"
    by (cases xs) auto
  with False show ?thesis
    by (simp add: re_spaces_def one_or_more_def)
qed


declare replace_from.simps [simp del]

lemma replace_spaces_Nil [simp]: "replace_from re_spaces rp prev [] = []"
  by (simp add: replace_from.simps match_spaces)

















subsection \<open>Markup around plain text\<close>


lemma match_Rep_max:
  assumes "length (takeWhile p (case hi of None \<Rightarrow> xs | Some h \<Rightarrow> take h xs)) = k"
    and "lo \<le> k"
    and "match_items r (prev_after prev k xs) (drop k xs) = Some (m, caps)"
  shows "match_items (Rep p lo hi True cap # r) prev xs =
           Some (k + m, (if cap then [take k xs] else []) @ caps)"
  using assms by (simp add: upt_Suc_append del: upt_Suc)

lemma match_one:
  "p c \<Longrightarrow> match_items r (Some c) cs = Some (m, caps) \<Longrightarrow>
     match_items (exactly_one p # r) prev (c # cs) = Some (Suc m, caps)"
  unfolding exactly_one_def
  using match_Rep_max [where p = p and hi = "Some 1" and xs = "c # cs" and k = 1 and lo = 1
      and r = r and prev = prev and m = m and caps = caps and cap = False]
  by (simp add: prev_after_def)

lemma match_one_fail:
  "xs = [] \<or> \<not> p (hd xs) \<Longrightarrow> match_items (exactly_one p # r) prev xs = None"
  by (cases xs) (auto simp: exactly_one_def)

























lemma requests_startNewTTS:
  "requests (startNewTTS p s) =
     requests s @ [\<lparr>text' = limitedText p, voiceName = name (selectedVoice s)\<rparr>]"
  by (simp add: startNewTTS_def requests_def call_def release_ref_def Let_def split: option.splits)

subsection \<open>Evaluations and the claims about the normalizer\<close>

lemma convert_demo:
  "convertMarkdownToPlainText (js ''# Hello\<newline>\<newline>This is **bold** text.'') =
     js ''Hello This is bold text.''"
  by code_simp






text \<open>
  C9. With markdown mode on, the text \<^verbatim>\<open># Hello\n\nThis is **bold** text.\<close> is normalized to
  \<^verbatim>\<open>Hello This is bold text.\<close>, and the request issued carries that text and the name of
  the selected voice (from the initial state: alloy).
\<close>

theorem example_end_to_end:
  "convertMarkdownToPlainText (content demo) = js ''Hello This is bold text.'' \<and>
   textToSpeak demo = js ''Hello This is bold text.'' \<and>
   requests (startNewTTS demo s) =
     requests s @ [\<lparr>text' = js ''Hello This is bold text.'', voiceName = name (selectedVoice s)\<rparr>] \<and>
   requests (speak demo (initial demo)) =
     [\<lparr>text' = js ''Hello This is bold text.'', voiceName = js ''alloy''\<rparr>]"
proof -
  have c: "convertMarkdownToPlainText (content demo) = js ''Hello This is bold text.''"
    by (simp add: demo_def convert_demo)
  then have t: "textToSpeak demo = js ''Hello This is bold text.''"
    by (simp add: textToSpeak_def demo_def)
  then have l: "limitedText demo = js ''Hello This is bold text.''"
    by (simp add: limitedText_def js_def)
  have b: "trim (content demo) \<noteq> []"
    by code_simp
  have i: "requests (initial demo) = []" "name (selectedVoice (initial demo)) = js ''alloy''"
    "ttsStatus (initial demo) = Idle"
    by (simp_all add: requests_def initial_def demo_def OPENAI_VOICES_def)
  have "speak demo (initial demo) = startNewTTS demo (initial demo)"
    using b i(3) by (simp add: speak_def speak_disabled_def generateTTS_def demo_def)
  with c t l i show ?thesis
    by (simp add: requests_startNewTTS)
qed

section \<open>The playback controller\<close>

text \<open>
  C3. When the text to speak is longer than 4096 code units, the text of the issued
  request is its first 4096 units followed by the marker \<^verbatim>\<open>...\<close>: its length is 4096
  plus the length of the marker and it ends with the marker. A text of at most 4096 units
  is sent unchanged.
\<close>

theorem truncation:
  "(length (textToSpeak p) > 4096 \<longrightarrow>
      limitedText p = take 4096 (textToSpeak p) @ js ''...'' \<and>
      length (limitedText p) = 4096 + length (js ''...'') \<and>
      suffix (js ''...'') (limitedText p)) \<and>
   (length (textToSpeak p) \<le> 4096 \<longrightarrow> limitedText p = textToSpeak p) \<and>
   requests (startNewTTS p s) =
     requests s @ [\<lparr>text' = limitedText p, voiceName = name (selectedVoice s)\<rparr>]"
  by (simp add: limitedText_def requests_startNewTTS suffix_def)

theorem truncation_witness:
  "length (textToSpeak long_text) > 4096 \<and>
   limitedText long_text = replicate 4096 0x61 @ js ''...'' \<and>
   length (limitedText long_text) = 4099 \<and>
   length (textToSpeak plain) \<le> 4096 \<and> limitedText plain = js ''Hallo''"
proof -
  have l: "textToSpeak long_text = replicate 4097 0x61"
    by (simp add: textToSpeak_def long_text_def)
  have s: "textToSpeak plain = js ''Hallo''"
    by (simp add: textToSpeak_def plain_def)
  have t: "take 4096 (replicate 4097 (0x61 :: cu)) = replicate 4096 0x61"
    by simp
  from truncation [of long_text "initial long_text"] truncation [of plain "initial plain"] l s t
  show ?thesis
    by (simp add: js_def)
qed

text \<open>
  C2. While the status is generating or loading, a click on the speak button (which is
  disabled then) issues no request and leaves the status, and the whole state, unchanged.
\<close>

theorem speak_in_flight_noop:
  "ttsStatus s = Generating \<or> ttsStatus s = Loading \<Longrightarrow>
     speak p s = s \<and> requests (speak p s) = requests s \<and> ttsStatus (speak p s) = ttsStatus s"
  by (simp add: speak_def speak_disabled_def)

theorem speak_in_flight_noop_witness:
  "ttsStatus (speak plain (initial plain)) = Generating \<and>
   requests (speak plain (speak plain (initial plain))) = requests (speak plain (initial plain)) \<and>
   ttsStatus (speak plain (speak plain (initial plain))) = Generating"
proof -
  have h: "ttsStatus (speak plain (initial plain)) = Generating"
    by code_simp
  from speak_in_flight_noop [OF disjI1 [OF h], of plain] h show ?thesis
    by simp
qed



text \<open>
  C1. The claim fails on \<open>stopTTS\<close> and on unmount: after a session has started playing,
  a click on stop, or the cleanup on unmount, pauses the element and drops the ref, and
  the platform calls made hold the creation of the object URL and no revocation of it.
\<close>

theorem stop_leaves_url:
  "map_option effects (run plain (to_playing @ [ClickStop]) (initial plain)) =
     Some [Fetch \<lparr>text' = js ''Hallo'', voiceName = js ''alloy''\<rparr>,
           CreateObjectURL 0, NewAudio 0, SetSrc 0 0, AudioPlay 0, AudioPause 0] \<and>
   map_option observe (run plain (to_playing @ [ClickStop]) (initial plain)) =
     Some (Idle, [], None, None, []) \<and>
   map_option (revocations 0) (run plain (to_playing @ [ClickStop]) (initial plain)) = Some 0 \<and>
   map_option effects (run plain (to_playing @ [Unmount]) (initial plain)) =
     Some [Fetch \<lparr>text' = js ''Hallo'', voiceName = js ''alloy''\<rparr>,
           CreateObjectURL 0, NewAudio 0, SetSrc 0 0, AudioPlay 0, AudioPause 0] \<and>
   map_option (revocations 0) (run plain (to_playing @ [Unmount]) (initial plain)) = Some 0"
  by code_simp

text \<open>
  C6. The claim fails when \<open>audio.play()\<close> rejects: the \<open>catch\<close> block sets the status to
  error and arms the 3000 ms timer, but the audio element stays in the ref and in
  \<open>currentAudio\<close>; when the timer fires, no call pauses the element or revokes its URL.
\<close>

theorem play_rejected_keeps_session:
  "map_option observe
     (run plain [ClickSpeak, FetchSettled (Response True), BlobSettled True, PlaySettled False]
        (initial plain))
   = Some (Error, js ''Er is een fout opgetreden'', Some 0, Some 0, [3000]) \<and>
   map_option effects
     (run plain [ClickSpeak, FetchSettled (Response True), BlobSettled True, PlaySettled False,
                 TimerFired] (initial plain))
   = Some [Fetch \<lparr>text' = js ''Hallo'', voiceName = js ''alloy''\<rparr>,
           CreateObjectURL 0, NewAudio 0, SetSrc 0 0, AudioPlay 0, SetTimeout 3000]"
  by code_simp

text \<open>
  C7. The claim fails on the same path: once the timer has fired the status is idle, the
  progress message is empty, and the ref still holds the audio element.
\<close>

theorem idle_with_live_audio:
  "map_option observe
     (run plain [ClickSpeak, FetchSettled (Response True), BlobSettled True, PlaySettled False,
                 TimerFired] (initial plain))
   = Some (Idle, [], Some 0, Some 0, [])"
  by code_simp

section \<open>The relay endpoint\<close>

lemma status_POST_catch: "status (POST_catch now e) = (if err_status e = Some 429 then 429 else 500)"
  by (simp add: POST_catch_def json_response_def)

lemma isValidVoice_alloy: "isValidVoice (JStr (js ''alloy''))"
  by (simp add: isValidVoice_def OPENAI_VOICES_def js_def)






text \<open>
  C10. With credentials configured, a body that holds a valid text and no voice name is
  not rejected: the provider is called with the voice alloy, and the answer is the audio
  or the error of that call, never a 400.
\<close>

theorem POST_default_voice:
  assumes "k \<noteq> []"
    and "map_of (rev kvs) (js ''voiceName'') = None"
    and "map_of (rev kvs) (js ''text'') = Some (JStr t)"
    and "t \<noteq> []" and "length t \<le> 4096"
  shows "POST (Some k) (Inr (JObj kvs)) upstream now =
           (case upstream (js ''alloy'') t of
              Mp3 buffer \<Rightarrow> audio_response buffer
            | Throws e \<Rightarrow> POST_catch now e) \<and>
         status (POST (Some k) (Inr (JObj kvs)) upstream now) \<noteq> 400"
proof -
  have eq: "POST (Some k) (Inr (JObj kvs)) upstream now =
           (case upstream (js ''alloy'') t of
              Mp3 buffer \<Rightarrow> audio_response buffer
            | Throws e \<Rightarrow> POST_catch now e)"
    using assms isValidVoice_alloy
    by (simp add: POST_def get_prop_def Let_def split: upstream_result.split)
  show ?thesis
    unfolding eq
    by (simp add: status_POST_catch audio_response_def split: upstream_result.split)
qed

theorem POST_default_voice_witness:
  "POST (Some (js ''sk'')) (Inr (JObj [(js ''text'', JStr (js ''Hallo''))])) working_upstream [] =
     audio_response [0x49, 0x44, 0x33]"
  using POST_default_voice [of "js ''sk''" "[(js ''text'', JStr (js ''Hallo''))]" "js ''Hallo''"
      working_upstream "[]"]
  by (simp add: js_def working_upstream_def)

end
